theory Spec2Isabelle
  imports Complex_Main
begin

section \<open>Layer configuration (burdenConfig.js)\<close>

text \<open>
  The configuration module holds object literals.  An object literal is embedded as an
  association list in the order of the literal, so that \<open>Object.keys\<close> is the list of
  first components.  Only the fields that the map component and the root component read
  are kept (keys and tile directories); labels, icons and legend colours are display text.
\<close>

record tile_dir =
  strict :: string
  liberal :: string

record burden_cfg =
  key :: string
  shortLabel :: string
  tileDir :: tile_dir

definition BURDEN_LAYERS :: "(string \<times> burden_cfg) list" where
  "BURDEN_LAYERS =
    [(''env_footprint'',
        \<lparr>key = ''env_footprint'', shortLabel = ''Env. Footprint'',
         tileDir = \<lparr>strict = ''env_footprint_strict'', liberal = ''env_footprint_liberal''\<rparr>\<rparr>),
     (''weather_extremes'',
        \<lparr>key = ''weather_extremes'', shortLabel = ''Weather Extremes'',
         tileDir = \<lparr>strict = ''weather_extremes_strict'', liberal = ''weather_extremes_liberal''\<rparr>\<rparr>),
     (''income_poverty'',
        \<lparr>key = ''income_poverty'', shortLabel = ''Poverty'',
         tileDir = \<lparr>strict = ''income_poverty_strict'', liberal = ''income_poverty_liberal''\<rparr>\<rparr>),
     (''malnutrition'',
        \<lparr>key = ''malnutrition'', shortLabel = ''Malnutrition'',
         tileDir = \<lparr>strict = ''malnutrition_strict'', liberal = ''malnutrition_liberal''\<rparr>\<rparr>)]"

text \<open>\<open>Object.keys(obj)\<close>: the own keys of an object literal, in insertion order.\<close>

definition Object_keys :: "(string \<times> 'a) list \<Rightarrow> string list" where
  "Object_keys obj = map fst obj"

section \<open>Root component state and its callbacks (App.js)\<close>

definition DEFAULT_ACTIVE_LAYERS :: "string list" where
  "DEFAULT_ACTIVE_LAYERS = [''breadbaskets'', ''cooccurrence'']"

text \<open>
  The opacity object maps a layer key to a number.  Numbers are embedded as reals: the
  only arithmetic the program does on them is a multiplication by \<open>0.5\<close>.  A key that the
  object does not have reads as \<open>undefined\<close>, which is \<open>None\<close> here.
  \<open>Object.fromEntries\<close> over the burden keys is the fold that stores each entry.
\<close>

definition DEFAULT_OPACITY :: "string \<rightharpoonup> real" where
  "DEFAULT_OPACITY =
     fold (\<lambda>k obj. obj(k \<mapsto> 0.70)) (Object_keys BURDEN_LAYERS)
       [''breadbaskets'' \<mapsto> 0.85, ''cooccurrence'' \<mapsto> 0.75]"

record app_state =
  activeLayers :: "string list"
  layerOpacity :: "string \<rightharpoonup> real"
  selectedThreshold :: string
  viewMode :: string

text \<open>The four \<open>useState\<close> initial values.\<close>

definition initial_state :: app_state where
  "initial_state =
     \<lparr>activeLayers = DEFAULT_ACTIVE_LAYERS, layerOpacity = DEFAULT_OPACITY,
      selectedThreshold = ''strict'', viewMode = ''cooccurrence''\<rparr>"

text \<open>\<open>prev.includes(key) ? prev.filter((k) => k !== key) : [...prev, key]\<close>\<close>

definition handleToggle :: "string \<Rightarrow> app_state \<Rightarrow> app_state" where
  "handleToggle k s =
     s\<lparr>activeLayers :=
         (let prev = activeLayers s in
          if k \<in> set prev then filter (\<lambda>k'. k' \<noteq> k) prev else prev @ [k])\<rparr>"

text \<open>\<open>{ ...prev, [key]: value }\<close>\<close>

definition handleOpacityChange :: "string \<Rightarrow> real \<Rightarrow> app_state \<Rightarrow> app_state" where
  "handleOpacityChange k v s = s\<lparr>layerOpacity := (layerOpacity s)(k \<mapsto> v)\<rparr>"

definition handleThresholdChange :: "string \<Rightarrow> app_state \<Rightarrow> app_state" where
  "handleThresholdChange thresh s = s\<lparr>selectedThreshold := thresh\<rparr>"

definition handleViewModeChange :: "string \<Rightarrow> app_state \<Rightarrow> app_state" where
  "handleViewModeChange mode s =
     (let s1 = s\<lparr>viewMode := mode\<rparr>; prev = activeLayers s in
      if mode = ''cooccurrence'' then
        (let cleaned = filter (\<lambda>k. k \<notin> set (Object_keys BURDEN_LAYERS)) prev in
         s1\<lparr>activeLayers :=
              (if ''cooccurrence'' \<in> set cleaned then cleaned
               else cleaned @ [''cooccurrence''])\<rparr>)
      else s1\<lparr>activeLayers := filter (\<lambda>k. k \<noteq> ''cooccurrence'') prev\<rparr>)"

text \<open>
  The control panel forwards exactly four kinds of user intent to the root component.
  A run of the application is a list of such events applied to the initial state.
\<close>

datatype ui_event =
  Toggle string
  | OpacityChange string real
  | ThresholdChange string
  | ViewModeChange string

fun dispatch :: "app_state \<Rightarrow> ui_event \<Rightarrow> app_state" where
  "dispatch s (Toggle k) = handleToggle k s"
| "dispatch s (OpacityChange k v) = handleOpacityChange k v s"
| "dispatch s (ThresholdChange t) = handleThresholdChange t s"
| "dispatch s (ViewModeChange mode) = handleViewModeChange mode s"

definition run :: "ui_event list \<Rightarrow> app_state" where
  "run evs = foldl dispatch initial_state evs"

section \<open>Static tables read by the map component (burdenConfig.js)\<close>

record breadbasket_cfg =
  tileset :: string
  layer :: string
  groupKey :: string
  valueKey :: string

definition BREADBASKET :: breadbasket_cfg where
  "BREADBASKET =
     \<lparr>tileset = ''plotline.cndbsry2'', layer = ''prod_overview'',
      groupKey = ''max_food_group'', valueKey = ''max_food_group_value''\<rparr>"

text \<open>
  JavaScript values as far as feature attributes and popup fields need them.  A number
  is a real; \<open>NaN\<close> appears only as the failed conversion of a string, see \<open>ToNumber\<close>.
\<close>

datatype jsval = Undefined | Null | Bool bool | Num real | Str string

record food_group =
  color :: jsval
  label :: jsval

definition FOOD_GROUP_COLORS :: "(string \<times> food_group) list" where
  "FOOD_GROUP_COLORS =
    [(''grains'', \<lparr>color = Str ''#f5c542'', label = Str ''Grains''\<rparr>),
     (''meat_and_fish'', \<lparr>color = Str ''#ff6b6b'', label = Str ''Meat & Fish''\<rparr>),
     (''dairy_and_eggs'', \<lparr>color = Str ''#fff06a'', label = Str ''Dairy & Eggs''\<rparr>),
     (''fruits'', \<lparr>color = Str ''#7dde60'', label = Str ''Fruits''\<rparr>),
     (''vegetables'', \<lparr>color = Str ''#3dcc3d'', label = Str ''Vegetables''\<rparr>),
     (''oils_and_oilseed'', \<lparr>color = Str ''#e89840'', label = Str ''Oils & Oilseeds''\<rparr>),
     (''pulses'', \<lparr>color = Str ''#c4855c'', label = Str ''Pulses''\<rparr>),
     (''starchy_roots'', \<lparr>color = Str ''#d49ce8'', label = Str ''Starchy Roots''\<rparr>),
     (''treenuts'', \<lparr>color = Str ''#5ea54a'', label = Str ''Tree Nuts''\<rparr>),
     (''other'', \<lparr>color = Str ''#aaaaaa'', label = Str ''Other''\<rparr>)]"

section \<open>The map instance (the part of mapbox-gl the component drives)\<close>

text \<open>
  A style value is a number, a string, or an expression array.  A layer carries its
  layout and paint properties; the map is a store from layer id to layer, together with
  the cursor of its canvas.  \<open>getLayer\<close> answers \<open>undefined\<close> (\<open>None\<close>) for an id
  the store does not have; the two setters overwrite one property of an existing layer
  and leave the store alone when the layer is absent; \<open>addLayer\<close> inserts a layer
  under a fresh id.
\<close>

datatype style_value = SNum real | SStr string | SArr "style_value list"

record map_layer =
  ltype :: string
  lsource :: string
  sourceLayer :: "string option"
  layout :: "string \<rightharpoonup> string"
  paint :: "string \<rightharpoonup> style_value"

record mapbox =
  mlayers :: "string \<rightharpoonup> map_layer"
  canvasCursor :: string

definition getLayer :: "mapbox \<Rightarrow> string \<Rightarrow> map_layer option" where
  "getLayer m lid = mlayers m lid"

definition setLayoutProperty :: "mapbox \<Rightarrow> string \<Rightarrow> string \<Rightarrow> string \<Rightarrow> mapbox" where
  "setLayoutProperty m lid name v =
     (case mlayers m lid of
        None \<Rightarrow> m
      | Some l \<Rightarrow> m\<lparr>mlayers := (mlayers m)(lid \<mapsto> l\<lparr>layout := (layout l)(name \<mapsto> v)\<rparr>)\<rparr>)"

definition setPaintProperty :: "mapbox \<Rightarrow> string \<Rightarrow> string \<Rightarrow> style_value \<Rightarrow> mapbox" where
  "setPaintProperty m lid name v =
     (case mlayers m lid of
        None \<Rightarrow> m
      | Some l \<Rightarrow> m\<lparr>mlayers := (mlayers m)(lid \<mapsto> l\<lparr>paint := (paint l)(name \<mapsto> v)\<rparr>)\<rparr>)"

definition addLayer :: "mapbox \<Rightarrow> string \<Rightarrow> map_layer \<Rightarrow> mapbox" where
  "addLayer m lid l =
     (case mlayers m lid of
        None \<Rightarrow> m\<lparr>mlayers := (mlayers m)(lid \<mapsto> l)\<rparr>
      | Some _ \<Rightarrow> m)"

text \<open>A layer is shown when its layout property \<open>visibility\<close> is \<open>visible\<close>.\<close>

definition isVisible :: "mapbox \<Rightarrow> string \<Rightarrow> bool" where
  "isVisible m lid =
     (case getLayer m lid of None \<Rightarrow> False | Some l \<Rightarrow> layout l ''visibility'' = Some ''visible'')"

definition isHidden :: "mapbox \<Rightarrow> string \<Rightarrow> bool" where
  "isHidden m lid =
     (case getLayer m lid of None \<Rightarrow> False | Some l \<Rightarrow> layout l ''visibility'' = Some ''none'')"

definition paintOf :: "mapbox \<Rightarrow> string \<Rightarrow> string \<Rightarrow> style_value option" where
  "paintOf m lid name = (case getLayer m lid of None \<Rightarrow> None | Some l \<Rightarrow> paint l name)"

section \<open>Map component (Map.js)\<close>

definition BREADBASKET_SIZE :: style_value where
  "BREADBASKET_SIZE =
     SArr [SStr ''interpolate'', SArr [SStr ''linear''], SArr [SStr ''zoom''],
           SNum 1, SNum 0.4, SNum 2, SNum 0.6, SNum 3, SNum 0.9, SNum 4, SNum 1.3,
           SNum 5, SNum 1.8, SNum 6, SNum 2.5, SNum 7, SNum 3.2, SNum 8, SNum 4.0]"

text \<open>The configured colours are strings; the conversion below reads them as such.\<close>

fun styleOf :: "jsval \<Rightarrow> style_value" where
  "styleOf (Num r) = SNum r"
| "styleOf (Str s) = SStr s"
| "styleOf (Bool b) = SStr (if b then ''true'' else ''false'')"
| "styleOf Null = SStr ''null''"
| "styleOf Undefined = SStr ''undefined''"

definition buildFoodGroupColorExpr :: style_value where
  "buildFoodGroupColorExpr =
     (let expr = [SStr ''match'', SArr [SStr ''get'', SStr (groupKey BREADBASKET)]];
          expr = fold (\<lambda>(k, fg) expr. expr @ [SStr k, styleOf (color fg)]) FOOD_GROUP_COLORS expr;
          expr = expr @ [SStr ''#444444'']
      in SArr expr)"

definition addAllLayers :: "mapbox \<Rightarrow> mapbox" where
  "addAllLayers m =
     (let m = addLayer m ''breadbaskets-layer''
            \<lparr>ltype = ''circle'', lsource = ''breadbaskets'',
             sourceLayer = Some (layer BREADBASKET),
             layout = [''visibility'' \<mapsto> ''visible''],
             paint = [''circle-radius'' \<mapsto> BREADBASKET_SIZE,
                      ''circle-color'' \<mapsto> buildFoodGroupColorExpr,
                      ''circle-opacity'' \<mapsto> SNum 0.9,
                      ''circle-stroke-width'' \<mapsto>
                         SArr [SStr ''interpolate'', SArr [SStr ''linear''], SArr [SStr ''zoom''],
                               SNum 1, SNum 0.5, SNum 4, SNum 0.3, SNum 8, SNum 0.2],
                      ''circle-stroke-color'' \<mapsto> SStr ''rgba(255,255,255,0.5)'',
                      ''circle-stroke-opacity'' \<mapsto> SNum 0.5]\<rparr>;
          m = fold (\<lambda>threshKey m.
                 addLayer m (''raster-cooccurrence-'' @ threshKey)
                   \<lparr>ltype = ''raster'', lsource = ''raster-cooccurrence-'' @ threshKey,
                    sourceLayer = None,
                    layout = [''visibility'' \<mapsto>
                                (if threshKey = ''strict'' then ''visible'' else ''none'')],
                    paint = [''raster-opacity'' \<mapsto> SNum 0.75,
                             ''raster-fade-duration'' \<mapsto> SNum 200]\<rparr>)
                [''strict'', ''liberal''] m;
          m = fold (\<lambda>k m.
                 fold (\<lambda>threshKey m.
                    addLayer m (''raster-'' @ k @ ''-'' @ threshKey)
                      \<lparr>ltype = ''raster'', lsource = ''raster-'' @ k @ ''-'' @ threshKey,
                       sourceLayer = None,
                       layout = [''visibility'' \<mapsto> ''none''],
                       paint = [''raster-opacity'' \<mapsto> SNum 0.7,
                                ''raster-fade-duration'' \<mapsto> SNum 200]\<rparr>)
                   [''strict'', ''liberal''] m)
                (Object_keys BURDEN_LAYERS) m
      in m)"

text \<open>
  The component keeps the map instance and a readiness flag in refs.  \<open>mapRef\<close> is
  \<open>None\<close> before the map is created and after teardown.  The load handler registers
  the layers on the freshly loaded style and raises the flag.
\<close>

record map_component =
  mapRef :: "mapbox option"
  readyRef :: bool

definition onLoad :: "mapbox \<Rightarrow> map_component" where
  "onLoad m = \<lparr>mapRef = Some (addAllLayers m), readyRef = True\<rparr>"

text \<open>
  \<open>syncLayers\<close>, with the three props it closes over as arguments.
  \<open>selectedThreshold || "strict"\<close> takes \<open>strict\<close> for the empty string, the one
  falsy string; \<open>layerOpacity[k] ?? d\<close> takes \<open>d\<close> for a key the object lacks.
\<close>

definition syncLayers ::
  "string list \<Rightarrow> (string \<rightharpoonup> real) \<Rightarrow> string \<Rightarrow> map_component \<Rightarrow> map_component" where
  "syncLayers activeLayers' layerOpacity' selectedThreshold' c =
     (case mapRef c of
        None \<Rightarrow> c
      | Some m \<Rightarrow>
          if \<not> readyRef c then c
          else
            (let thresh = (if selectedThreshold' = [] then ''strict'' else selectedThreshold');
                 bbActive = (''breadbaskets'' \<in> set activeLayers');
                 m = (if getLayer m ''breadbaskets-layer'' \<noteq> None then
                        (let m = setLayoutProperty m ''breadbaskets-layer'' ''visibility''
                                   (if bbActive then ''visible'' else ''none'')
                         in if bbActive then
                              (let m = setPaintProperty m ''breadbaskets-layer'' ''circle-opacity''
                                         (SNum (case layerOpacity' ''breadbaskets'' of
                                                  None \<Rightarrow> 0.9 | Some v \<Rightarrow> v))
                               in setPaintProperty m ''breadbaskets-layer'' ''circle-stroke-opacity''
                                    (SNum ((case layerOpacity' ''breadbaskets'' of
                                              None \<Rightarrow> 0.9 | Some v \<Rightarrow> v) * 0.5)))
                            else m)
                      else m);
                 coocActive = (''cooccurrence'' \<in> set activeLayers');
                 m = fold (\<lambda>t m.
                        (let lid = ''raster-cooccurrence-'' @ t in
                         if getLayer m lid = None then m
                         else
                           (let show = (coocActive \<and> t = thresh);
                                m = setLayoutProperty m lid ''visibility''
                                      (if show then ''visible'' else ''none'')
                            in if show then
                                 setPaintProperty m lid ''raster-opacity''
                                   (SNum (case layerOpacity' ''cooccurrence'' of
                                            None \<Rightarrow> 0.75 | Some v \<Rightarrow> v))
                               else m)))
                       [''strict'', ''liberal''] m;
                 m = fold (\<lambda>k m.
                        (let isActive = (k \<in> set activeLayers') in
                         fold (\<lambda>t m.
                            (let lid = ''raster-'' @ k @ ''-'' @ t in
                             if getLayer m lid = None then m
                             else
                               (let show = (isActive \<and> t = thresh);
                                    m = setLayoutProperty m lid ''visibility''
                                          (if show then ''visible'' else ''none'')
                                in if show then
                                     setPaintProperty m lid ''raster-opacity''
                                       (SNum (case layerOpacity' k of
                                                None \<Rightarrow> 0.7 | Some v \<Rightarrow> v))
                                   else m)))
                           [''strict'', ''liberal''] m))
                       (Object_keys BURDEN_LAYERS) m
             in c\<lparr>mapRef := Some m\<rparr>))"

text \<open>The effect that runs \<open>syncLayers\<close> with the props the root component passes.\<close>

definition render :: "app_state \<Rightarrow> map_component \<Rightarrow> map_component" where
  "render s c = syncLayers (activeLayers s) (layerOpacity s) (selectedThreshold s) c"

section \<open>Hover popup (Map.js, setupHoverEvents)\<close>

text \<open>
  The handler reads two attributes of the hovered feature and fills the three holes of
  the popup template: the swatch colour, the title and the production value.  Conversions
  that the language does itself are functions of the value; the three that depend on the
  number formatting of the engine and of the locale (\<open>Number.prototype.toString\<close>,
  the numeric reading of a string, \<open>toLocaleString\<close>) are parameters.  A number that
  is \<open>NaN\<close> is \<open>None\<close>.  Reading an attribute of a feature without a properties
  object throws.
\<close>

record js_builtins =
  numberToString :: "real \<Rightarrow> string"
  stringToNumber :: "string \<Rightarrow> real option"
  toLocaleString :: "real option \<Rightarrow> string"

fun truthy :: "jsval \<Rightarrow> bool" where
  "truthy Undefined = False"
| "truthy Null = False"
| "truthy (Bool b) = b"
| "truthy (Num r) = (r \<noteq> 0)"
| "truthy (Str s) = (s \<noteq> [])"

fun ToString :: "js_builtins \<Rightarrow> jsval \<Rightarrow> string" where
  "ToString B Undefined = ''undefined''"
| "ToString B Null = ''null''"
| "ToString B (Bool b) = (if b then ''true'' else ''false'')"
| "ToString B (Num r) = numberToString B r"
| "ToString B (Str s) = s"

fun ToNumber :: "js_builtins \<Rightarrow> jsval \<Rightarrow> real option" where
  "ToNumber B Undefined = None"
| "ToNumber B Null = Some 0"
| "ToNumber B (Bool b) = Some (if b then 1 else 0)"
| "ToNumber B (Num r) = Some r"
| "ToNumber B (Str s) = stringToNumber B s"

datatype js_error = TypeError

record feature =
  properties :: "(string \<rightharpoonup> jsval) option"

record mouse_event =
  features :: "feature list option"
  lngLat :: "real \<times> real"

record popup_html =
  swatch :: string
  title :: string
  production :: string

record popup =
  position :: "(real \<times> real) option"
  html :: "popup_html option"
  onMap :: bool

definition get :: "(string \<rightharpoonup> jsval) \<Rightarrow> string \<Rightarrow> jsval" where
  "get obj k = (case obj k of None \<Rightarrow> Undefined | Some v \<Rightarrow> v)"

text \<open>
  The colour table is a plain object, and \<open>FOOD_GROUP_COLORS[k]\<close> is an ordinary
  property read: it answers the entry for a key of the literal, and for a name that every
  plain object inherits from \<open>Object.prototype\<close> it answers the inherited value, a
  function (for \<open>__proto__\<close>, the prototype object itself).  Such a value is truthy and
  has neither a \<open>color\<close> nor a \<open>label\<close> property.  For any other name the read
  gives \<open>undefined\<close>.  The inherited names are those of the language standard.
\<close>

definition Object_prototype_names :: "string list" where
  "Object_prototype_names =
     [''constructor'', ''hasOwnProperty'', ''isPrototypeOf'', ''propertyIsEnumerable'',
      ''toLocaleString'', ''toString'', ''valueOf'', ''__proto__'',
      ''__defineGetter__'', ''__defineSetter__'', ''__lookupGetter__'', ''__lookupSetter__'']"

datatype property_read = OwnEntry food_group | InheritedValue | NoProperty

definition readFoodGroup :: "string \<Rightarrow> property_read" where
  "readFoodGroup k =
     (case map_of FOOD_GROUP_COLORS k of
        Some entry \<Rightarrow> OwnEntry entry
      | None \<Rightarrow> if k \<in> set Object_prototype_names then InheritedValue else NoProperty)"

definition mouseenter ::
  "js_builtins \<Rightarrow> string list \<Rightarrow> mouse_event \<Rightarrow> mapbox \<times> popup \<Rightarrow> js_error + mapbox \<times> popup" where
  "mouseenter B stateActive e mp =
     (case mp of (m, p) \<Rightarrow>
        if ''breadbaskets'' \<notin> set stateActive then Inr (m, p)
        else
          (let m = m\<lparr>canvasCursor := ''crosshair''\<rparr> in
           case features e of
             None \<Rightarrow> Inr (m, p)
           | Some [] \<Rightarrow> Inr (m, p)
           | Some (f # _) \<Rightarrow>
               (case properties f of
                  None \<Rightarrow> Inl TypeError
                | Some props \<Rightarrow>
                    (let fg = (case readFoodGroup
                                      (ToString B (get props (groupKey BREADBASKET))) of
                                 OwnEntry entry \<Rightarrow> entry
                               | InheritedValue \<Rightarrow> \<lparr>color = Undefined, label = Undefined\<rparr>
                               | NoProperty \<Rightarrow> \<lparr>color = Str ''#888'',
                                                 label = get props (groupKey BREADBASKET)\<rparr>);
                         v = get props (valueKey BREADBASKET)
                     in Inr (m, p\<lparr>position := Some (lngLat e),
                                  html := Some \<lparr>swatch = ToString B (color fg),
                                                title = ToString B (label fg),
                                                production =
                                                  toLocaleString B
                                                    (ToNumber B (if truthy v then v else Num 0))\<rparr>,
                                  onMap := True\<rparr>)))))"

definition mouseleave :: "mapbox \<times> popup \<Rightarrow> mapbox \<times> popup" where
  "mouseleave mp = (case mp of (m, p) \<Rightarrow> (m\<lparr>canvasCursor := []\<rparr>, p\<lparr>onMap := False\<rparr>))"

text \<open>
  The raster keys, as the configuration module lists them, and the ids under which the
  component registers its layers: the point layer, then one raster per key and threshold
  variant, named by the template \<open>raster-${key}-${t}\<close>.
\<close>

definition ALL_RASTER_KEYS :: "string list" where
  "ALL_RASTER_KEYS = ''cooccurrence'' # Object_keys BURDEN_LAYERS"

definition rasterLayerId :: "string \<Rightarrow> string \<Rightarrow> string" where
  "rasterLayerId k t = ''raster-'' @ k @ ''-'' @ t"

definition appLayerIds :: "string list" where
  "appLayerIds =
     ''breadbaskets-layer'' #
     concat (map (\<lambda>k. map (rasterLayerId k) [''strict'', ''liberal'']) ALL_RASTER_KEYS)"

definition layersRegistered :: "mapbox \<Rightarrow> bool" where
  "layersRegistered m = list_all (\<lambda>lid. getLayer m lid \<noteq> None) appLayerIds"

text \<open>A map whose style has no layers at all: the smallest instance to load the component on.\<close>

definition emptyMap :: mapbox where
  "emptyMap = \<lparr>mlayers = Map.empty, canvasCursor = []\<rparr>"

section \<open>The synchronisation as a table of per-layer updates\<close>

text \<open>
  For the proofs, one run of \<open>syncLayers\<close> is described as a list of pairs of a layer
  id and the update that the run applies to that layer when it exists.  The lemma
  \<open>syncLayers_syncMap\<close> below shows that the code computes exactly this.
\<close>

definition updLayer :: "string \<Rightarrow> (map_layer \<Rightarrow> map_layer) \<Rightarrow> mapbox \<Rightarrow> mapbox" where
  "updLayer lid f m = m\<lparr>mlayers := (mlayers m)(lid := map_option f (mlayers m lid))\<rparr>"

definition rasterUpd :: "bool \<Rightarrow> real \<Rightarrow> map_layer \<Rightarrow> map_layer" where
  "rasterUpd shown v l =
     (if shown then l\<lparr>layout := (layout l)(''visibility'' \<mapsto> ''visible''),
                     paint := (paint l)(''raster-opacity'' \<mapsto> SNum v)\<rparr>
      else l\<lparr>layout := (layout l)(''visibility'' \<mapsto> ''none'')\<rparr>)"

definition pointUpd :: "bool \<Rightarrow> real \<Rightarrow> map_layer \<Rightarrow> map_layer" where
  "pointUpd shown v l =
     (if shown then l\<lparr>layout := (layout l)(''visibility'' \<mapsto> ''visible''),
                     paint := (paint l)(''circle-opacity'' \<mapsto> SNum v,
                                        ''circle-stroke-opacity'' \<mapsto> SNum (v * 0.5))\<rparr>
      else l\<lparr>layout := (layout l)(''visibility'' \<mapsto> ''none'')\<rparr>)"

definition opac :: "(string \<rightharpoonup> real) \<Rightarrow> string \<Rightarrow> real \<Rightarrow> real" where
  "opac obj k d = (case obj k of None \<Rightarrow> d | Some v \<Rightarrow> v)"

definition threshOf :: "string \<Rightarrow> string" where
  "threshOf sel = (if sel = [] then ''strict'' else sel)"

definition syncMap :: "string list \<Rightarrow> (string \<rightharpoonup> real) \<Rightarrow> string \<Rightarrow> mapbox \<Rightarrow> mapbox" where
  "syncMap a obj sel m =
     fold (\<lambda>k. fold (\<lambda>t. updLayer (''raster-'' @ k @ ''-'' @ t)
                            (rasterUpd (k \<in> set a \<and> t = threshOf sel) (opac obj k 0.7)))
                  [''strict'', ''liberal''])
          (Object_keys BURDEN_LAYERS)
       (fold (\<lambda>t. updLayer (''raster-cooccurrence-'' @ t)
                     (rasterUpd (''cooccurrence'' \<in> set a \<and> t = threshOf sel) (opac obj ''cooccurrence'' 0.75)))
          [''strict'', ''liberal'']
          (updLayer ''breadbaskets-layer'' (pointUpd (''breadbaskets'' \<in> set a) (opac obj ''breadbaskets'' 0.9)) m))"

definition syncPlan ::
  "string list \<Rightarrow> (string \<rightharpoonup> real) \<Rightarrow> string \<Rightarrow> (string \<times> (map_layer \<Rightarrow> map_layer)) list" where
  "syncPlan a obj sel =
     (''breadbaskets-layer'', pointUpd (''breadbaskets'' \<in> set a) (opac obj ''breadbaskets'' 0.9)) #
     map (\<lambda>t. (rasterLayerId ''cooccurrence'' t,
                rasterUpd (''cooccurrence'' \<in> set a \<and> t = threshOf sel) (opac obj ''cooccurrence'' 0.75)))
       [''strict'', ''liberal''] @
     concat (map (\<lambda>k. map (\<lambda>t. (rasterLayerId k t,
                                  rasterUpd (k \<in> set a \<and> t = threshOf sel) (opac obj k 0.7)))
                         [''strict'', ''liberal''])
               (Object_keys BURDEN_LAYERS))"

definition applyPlan :: "(string \<times> (map_layer \<Rightarrow> map_layer)) list \<Rightarrow> mapbox \<Rightarrow> mapbox" where
  "applyPlan plan m = fold (\<lambda>(lid, f). updLayer lid f) plan m"

definition rasterDefault :: "string \<Rightarrow> real" where
  "rasterDefault k = (if k = ''cooccurrence'' then 0.75 else 0.7)"

section \<open>Properties of the root component\<close>

lemma burden_keys:
  "Object_keys BURDEN_LAYERS =
     [''env_footprint'', ''weather_extremes'', ''income_poverty'', ''malnutrition'']"
  by (simp add: Object_keys_def BURDEN_LAYERS_def)

lemma cooccurrence_not_burden: "''cooccurrence'' \<notin> set (Object_keys BURDEN_LAYERS)"
  by (simp add: burden_keys)

lemma breadbaskets_not_burden: "''breadbaskets'' \<notin> set (Object_keys BURDEN_LAYERS)"
  by (simp add: burden_keys)

lemma dispatch_distinct:
  "distinct (activeLayers s) \<Longrightarrow> distinct (activeLayers (dispatch s ev))"
  by (cases ev)
     (auto simp: handleToggle_def handleOpacityChange_def handleThresholdChange_def
        handleViewModeChange_def Let_def)

lemma foldl_dispatch_distinct:
  "distinct (activeLayers s) \<Longrightarrow> distinct (activeLayers (foldl dispatch s evs))"
  by (induction evs arbitrary: s) (simp_all add: dispatch_distinct)

text \<open>
  C2.  Whatever the active list was, the view-mode change to \<open>cooccurrence\<close> gives a list
  with none of the four burden keys and with \<open>cooccurrence\<close>; the keys of the result are
  the earlier keys without the burden keys, plus \<open>cooccurrence\<close>, so every other key
  (such as \<open>breadbaskets\<close>) stays exactly when it was there.  When \<open>cooccurrence\<close> was
  already active nothing is appended.
\<close>

theorem viewmode_cooccurrence_active:
  "set (activeLayers (handleViewModeChange ''cooccurrence'' s)) \<inter>
       {''env_footprint'', ''weather_extremes'', ''income_poverty'', ''malnutrition''} = {}
   \<and> ''cooccurrence'' \<in> set (activeLayers (handleViewModeChange ''cooccurrence'' s))
   \<and> set (activeLayers (handleViewModeChange ''cooccurrence'' s)) =
       (set (activeLayers s) -
          {''env_footprint'', ''weather_extremes'', ''income_poverty'', ''malnutrition''})
       \<union> {''cooccurrence''}
   \<and> (''breadbaskets'' \<in> set (activeLayers (handleViewModeChange ''cooccurrence'' s))
        \<longleftrightarrow> ''breadbaskets'' \<in> set (activeLayers s))
   \<and> activeLayers (handleViewModeChange ''cooccurrence'' s) =
       (if ''cooccurrence'' \<in> set (activeLayers s)
        then filter (\<lambda>k. k \<notin> set (Object_keys BURDEN_LAYERS)) (activeLayers s)
        else filter (\<lambda>k. k \<notin> set (Object_keys BURDEN_LAYERS)) (activeLayers s)
               @ [''cooccurrence''])
   \<and> viewMode (handleViewModeChange ''cooccurrence'' s) = ''cooccurrence''"
  by (auto simp: handleViewModeChange_def Let_def burden_keys)

text \<open>
  C3.  The view-mode change to \<open>individual\<close> removes \<open>cooccurrence\<close> and nothing else:
  the result is the earlier list with the occurrences of \<open>cooccurrence\<close> filtered out,
  so each burden key and \<open>breadbaskets\<close> is active afterwards exactly when it was before.
\<close>

theorem viewmode_individual_active:
  "''cooccurrence'' \<notin> set (activeLayers (handleViewModeChange ''individual'' s))
   \<and> activeLayers (handleViewModeChange ''individual'' s) =
       filter (\<lambda>k. k \<noteq> ''cooccurrence'') (activeLayers s)
   \<and> set (activeLayers (handleViewModeChange ''individual'' s)) =
       set (activeLayers s) - {''cooccurrence''}
   \<and> viewMode (handleViewModeChange ''individual'' s) = ''individual''"
  by (auto simp: handleViewModeChange_def Let_def)

text \<open>
  C8.  The default active list has no repeated key; each of the four callbacks (toggle,
  opacity change, threshold change, view-mode change), with any arguments, takes a list
  without repetition to a list without repetition; so no sequence of callbacks from the
  initial state produces a list in which a key occurs twice.
\<close>

theorem active_layers_distinct:
  "distinct DEFAULT_ACTIVE_LAYERS \<and>
   (distinct (activeLayers s) \<longrightarrow> distinct (activeLayers (dispatch s ev))) \<and>
   distinct (activeLayers (run evs))"
proof -
  have d: "distinct DEFAULT_ACTIVE_LAYERS"
    by (simp add: DEFAULT_ACTIVE_LAYERS_def)
  then have "distinct (activeLayers initial_state)"
    by (simp add: initial_state_def)
  then have "distinct (activeLayers (run evs))"
    unfolding run_def by (rule foldl_dispatch_distinct)
  with d dispatch_distinct [of s ev] show ?thesis by simp
qed

theorem active_layers_distinct_witness:
  "distinct (activeLayers initial_state) \<and>
   distinct (activeLayers (dispatch initial_state (Toggle ''malnutrition''))) \<and>
   activeLayers (dispatch initial_state (Toggle ''malnutrition'')) =
     [''breadbaskets'', ''cooccurrence'', ''malnutrition'']"
proof -
  have h: "distinct (activeLayers initial_state)" by code_simp
  have v: "activeLayers (dispatch initial_state (Toggle ''malnutrition'')) =
     [''breadbaskets'', ''cooccurrence'', ''malnutrition'']" by code_simp
  from active_layers_distinct [of initial_state "Toggle ''malnutrition''" "[]"] h v
  show ?thesis by blast
qed

section \<open>Properties of the map component\<close>

lemma updLayer_absent: "mlayers m lid = None \<Longrightarrow> updLayer lid f m = m"
  by (simp add: updLayer_def fun_upd_idem)

lemma raster_step:
  "(if getLayer m lid = None then m
    else if shown then
      setPaintProperty (setLayoutProperty m lid ''visibility'' (if shown then ''visible'' else ''none''))
        lid ''raster-opacity'' (SNum v)
    else setLayoutProperty m lid ''visibility'' (if shown then ''visible'' else ''none''))
   = updLayer lid (rasterUpd shown v) m"
  by (cases "mlayers m lid")
     (simp_all add: getLayer_def setPaintProperty_def setLayoutProperty_def updLayer_def rasterUpd_def fun_upd_idem)

lemma point_step:
  "(if getLayer m lid \<noteq> None then
      (if shown then
         setPaintProperty
           (setPaintProperty
              (setLayoutProperty m lid ''visibility'' (if shown then ''visible'' else ''none''))
              lid ''circle-opacity'' (SNum v))
           lid ''circle-stroke-opacity'' (SNum (v * 0.5))
       else setLayoutProperty m lid ''visibility'' (if shown then ''visible'' else ''none''))
    else m)
   = updLayer lid (pointUpd shown v) m"
  by (cases "mlayers m lid")
     (simp_all add: getLayer_def setPaintProperty_def setLayoutProperty_def updLayer_def pointUpd_def fun_upd_idem)

lemma syncLayers_syncMap:
  "syncLayers a obj sel c =
     (case mapRef c of None \<Rightarrow> c
      | Some m \<Rightarrow> if readyRef c then c\<lparr>mapRef := Some (syncMap a obj sel m)\<rparr> else c)"
  unfolding syncLayers_def syncMap_def Let_def raster_step point_step opac_def threshOf_def
  by (simp split: option.split)

lemma syncMap_plan: "syncMap a obj sel m = applyPlan (syncPlan a obj sel) m"
  by (simp add: syncMap_def applyPlan_def syncPlan_def burden_keys rasterLayerId_def)

lemma appLayerIds_eq:
  "appLayerIds =
    [''breadbaskets-layer'',
     ''raster-cooccurrence-strict'', ''raster-cooccurrence-liberal'',
     ''raster-env_footprint-strict'', ''raster-env_footprint-liberal'',
     ''raster-weather_extremes-strict'', ''raster-weather_extremes-liberal'',
     ''raster-income_poverty-strict'', ''raster-income_poverty-liberal'',
     ''raster-malnutrition-strict'', ''raster-malnutrition-liberal'']"
  by (simp add: appLayerIds_def ALL_RASTER_KEYS_def burden_keys rasterLayerId_def)

lemma plan_ids: "map fst (syncPlan a obj sel) = appLayerIds"
  by (simp add: syncPlan_def appLayerIds_eq burden_keys rasterLayerId_def)

lemma distinct_appLayerIds: "distinct appLayerIds"
  by (simp add: appLayerIds_eq)

lemma mlayers_updLayer:
  "mlayers (updLayer lid f m) lid' =
     (if lid' = lid then map_option f (mlayers m lid) else mlayers m lid')"
  by (simp add: updLayer_def)

lemma cursor_updLayer: "canvasCursor (updLayer lid f m) = canvasCursor m"
  by (simp add: updLayer_def)

lemma more_updLayer: "mapbox.more (updLayer lid f m) = mapbox.more m"
  by (simp add: updLayer_def)

lemma cursor_applyPlan: "canvasCursor (applyPlan plan m) = canvasCursor m"
  unfolding applyPlan_def
  by (induction plan arbitrary: m) (auto simp: cursor_updLayer)

lemma mlayers_applyPlan:
  "distinct (map fst plan) \<Longrightarrow>
   mlayers (applyPlan plan m) lid =
     (case map_of plan lid of
        None \<Rightarrow> mlayers m lid
      | Some f \<Rightarrow> map_option f (mlayers m lid))"
  unfolding applyPlan_def
proof (induction plan arbitrary: m)
  case Nil
  then show ?case by simp
next
  case (Cons p plan)
  obtain l0 f0 where p: "p = (l0, f0)" by (cases p)
  from Cons.prems p have fresh: "map_of plan l0 = None" and d: "distinct (map fst plan)"
    by (simp_all add: map_of_eq_None_iff)
  show ?case
    using Cons.IH [OF d, of "updLayer l0 f0 m"] fresh
    by (simp add: p mlayers_updLayer split: option.split)
qed

lemma more_applyPlan: "mapbox.more (applyPlan plan m) = mapbox.more m"
  unfolding applyPlan_def
  by (induction plan arbitrary: m) (auto simp: more_updLayer)

lemma applyPlan_idem:
  assumes d: "distinct (map fst plan)"
    and idem: "\<And>lid f l. (lid, f) \<in> set plan \<Longrightarrow> f (f l) = f l"
  shows "applyPlan plan (applyPlan plan m) = applyPlan plan m"
proof (rule mapbox.equality)
  show "mlayers (applyPlan plan (applyPlan plan m)) = mlayers (applyPlan plan m)"
  proof
    fix lid
    show "mlayers (applyPlan plan (applyPlan plan m)) lid = mlayers (applyPlan plan m) lid"
    proof (cases "map_of plan lid")
      case None
      then show ?thesis by (simp add: mlayers_applyPlan [OF d])
    next
      case (Some f)
      then have "(lid, f) \<in> set plan" by (rule map_of_SomeD)
      then have "f (f l) = f l" for l by (rule idem)
      with Some show ?thesis
        by (cases "mlayers m lid") (simp_all add: mlayers_applyPlan [OF d])
    qed
  qed
qed (simp_all add: cursor_applyPlan more_applyPlan)

lemma rasterUpd_idem: "rasterUpd b v (rasterUpd b v l) = rasterUpd b v l"
  by (simp add: rasterUpd_def)

lemma pointUpd_idem: "pointUpd b v (pointUpd b v l) = pointUpd b v l"
  by (simp add: pointUpd_def)

lemma syncPlan_idem: "(lid, f) \<in> set (syncPlan a obj sel) \<Longrightarrow> f (f l) = f l"
  by (auto simp: syncPlan_def burden_keys rasterUpd_idem pointUpd_idem)

lemma distinct_syncPlan: "distinct (map fst (syncPlan a obj sel))"
  by (simp add: plan_ids distinct_appLayerIds)

lemma syncMap_idem: "syncMap a obj sel (syncMap a obj sel m) = syncMap a obj sel m"
  unfolding syncMap_plan
  by (rule applyPlan_idem [OF distinct_syncPlan]) (rule syncPlan_idem)

lemma map_of_plan_point:
  "map_of (syncPlan a obj sel) ''breadbaskets-layer'' =
     Some (pointUpd (''breadbaskets'' \<in> set a) (opac obj ''breadbaskets'' 0.9))"
  by (simp add: syncPlan_def)

lemma map_of_plan_cooc:
  "t \<in> {''strict'', ''liberal''} \<Longrightarrow>
   map_of (syncPlan a obj sel) (rasterLayerId ''cooccurrence'' t) =
     Some (rasterUpd (''cooccurrence'' \<in> set a \<and> t = threshOf sel) (opac obj ''cooccurrence'' 0.75))"
  by (auto simp: syncPlan_def rasterLayerId_def)

lemma map_of_plan_burden:
  "k \<in> set (Object_keys BURDEN_LAYERS) \<Longrightarrow> t \<in> {''strict'', ''liberal''} \<Longrightarrow>
   map_of (syncPlan a obj sel) (rasterLayerId k t) =
     Some (rasterUpd (k \<in> set a \<and> t = threshOf sel) (opac obj k 0.7))"
  by (auto simp: syncPlan_def rasterLayerId_def burden_keys)

lemma raster_keys:
  "ALL_RASTER_KEYS =
     [''cooccurrence'', ''env_footprint'', ''weather_extremes'', ''income_poverty'', ''malnutrition'']"
  by (simp add: ALL_RASTER_KEYS_def burden_keys)

lemma map_of_plan_raster:
  assumes "k \<in> set ALL_RASTER_KEYS" "t \<in> {''strict'', ''liberal''}"
  shows "map_of (syncPlan a obj sel) (rasterLayerId k t) =
     Some (rasterUpd (k \<in> set a \<and> t = threshOf sel) (opac obj k (rasterDefault k)))"
proof (cases "k = ''cooccurrence''")
  case True
  with assms(2) show ?thesis by (simp add: map_of_plan_cooc rasterDefault_def)
next
  case False
  with assms(1) have "k \<in> set (Object_keys BURDEN_LAYERS)"
    by (simp add: ALL_RASTER_KEYS_def)
  with assms(2) False show ?thesis by (simp add: map_of_plan_burden rasterDefault_def)
qed

lemma registered_point: "layersRegistered m \<Longrightarrow> \<exists>l. mlayers m ''breadbaskets-layer'' = Some l"
  by (simp add: layersRegistered_def appLayerIds_def getLayer_def)

lemma registered_raster:
  "layersRegistered m \<Longrightarrow> k \<in> set ALL_RASTER_KEYS \<Longrightarrow> t \<in> {''strict'', ''liberal''} \<Longrightarrow>
   \<exists>l. mlayers m (rasterLayerId k t) = Some l"
  by (auto simp: layersRegistered_def appLayerIds_def getLayer_def list_all_iff)

lemma synced_point:
  assumes "mlayers m ''breadbaskets-layer'' = Some l"
  shows "mlayers (syncMap a obj sel m) ''breadbaskets-layer'' =
           Some (pointUpd (''breadbaskets'' \<in> set a) (opac obj ''breadbaskets'' 0.9) l)"
  by (simp add: syncMap_plan mlayers_applyPlan [OF distinct_syncPlan] map_of_plan_point assms)

lemma synced_raster:
  assumes "k \<in> set ALL_RASTER_KEYS" "t \<in> {''strict'', ''liberal''}"
    and "mlayers m (rasterLayerId k t) = Some l"
  shows "mlayers (syncMap a obj sel m) (rasterLayerId k t) =
           Some (rasterUpd (k \<in> set a \<and> t = threshOf sel) (opac obj k (rasterDefault k)) l)"
  by (simp add: syncMap_plan mlayers_applyPlan [OF distinct_syncPlan]
        map_of_plan_raster [OF assms(1,2)] assms(3))

lemma layout_rasterUpd:
  "layout (rasterUpd b v l) ''visibility'' = Some (if b then ''visible'' else ''none'')"
  by (simp add: rasterUpd_def)

lemma paint_rasterUpd:
  "paint (rasterUpd b v l) ''raster-opacity'' =
     (if b then Some (SNum v) else paint l ''raster-opacity'')"
  by (simp add: rasterUpd_def)

lemma layout_pointUpd:
  "layout (pointUpd b v l) ''visibility'' = Some (if b then ''visible'' else ''none'')"
  by (simp add: pointUpd_def)

lemma paint_pointUpd:
  "paint (pointUpd b v l) ''circle-opacity'' =
     (if b then Some (SNum v) else paint l ''circle-opacity'')"
  "paint (pointUpd b v l) ''circle-stroke-opacity'' =
     (if b then Some (SNum (v * 0.5)) else paint l ''circle-stroke-opacity'')"
  by (simp_all add: pointUpd_def)

lemma visible_point:
  assumes "layersRegistered m"
  shows "isVisible (syncMap a obj sel m) ''breadbaskets-layer'' \<longleftrightarrow> ''breadbaskets'' \<in> set a"
proof -
  from registered_point [OF assms] obtain l where "mlayers m ''breadbaskets-layer'' = Some l" ..
  then show ?thesis
    by (simp add: isVisible_def getLayer_def synced_point layout_pointUpd)
qed

lemma hidden_point:
  assumes "layersRegistered m"
  shows "isHidden (syncMap a obj sel m) ''breadbaskets-layer'' \<longleftrightarrow> ''breadbaskets'' \<notin> set a"
proof -
  from registered_point [OF assms] obtain l where "mlayers m ''breadbaskets-layer'' = Some l" ..
  then show ?thesis
    by (simp add: isHidden_def getLayer_def synced_point layout_pointUpd)
qed

lemma visible_raster:
  assumes "layersRegistered m" "k \<in> set ALL_RASTER_KEYS" "t \<in> {''strict'', ''liberal''}"
  shows "isVisible (syncMap a obj sel m) (rasterLayerId k t) \<longleftrightarrow> k \<in> set a \<and> t = threshOf sel"
proof -
  from registered_raster [OF assms] obtain l where "mlayers m (rasterLayerId k t) = Some l" ..
  then show ?thesis
    by (simp add: isVisible_def getLayer_def synced_raster [OF assms(2,3)] layout_rasterUpd)
qed

lemma hidden_raster:
  assumes "layersRegistered m" "k \<in> set ALL_RASTER_KEYS" "t \<in> {''strict'', ''liberal''}"
  shows "isHidden (syncMap a obj sel m) (rasterLayerId k t) \<longleftrightarrow> \<not> (k \<in> set a \<and> t = threshOf sel)"
proof -
  from registered_raster [OF assms] obtain l where "mlayers m (rasterLayerId k t) = Some l" ..
  then show ?thesis
    by (simp add: isHidden_def getLayer_def synced_raster [OF assms(2,3)] layout_rasterUpd)
qed

lemma opacity_point:
  assumes "layersRegistered m" "''breadbaskets'' \<in> set a"
  shows "paintOf (syncMap a obj sel m) ''breadbaskets-layer'' ''circle-opacity'' =
           Some (SNum (opac obj ''breadbaskets'' 0.9))"
    and "paintOf (syncMap a obj sel m) ''breadbaskets-layer'' ''circle-stroke-opacity'' =
           Some (SNum (opac obj ''breadbaskets'' 0.9 * 0.5))"
proof -
  from registered_point [OF assms(1)] obtain l where l: "mlayers m ''breadbaskets-layer'' = Some l" ..
  show "paintOf (syncMap a obj sel m) ''breadbaskets-layer'' ''circle-opacity'' =
           Some (SNum (opac obj ''breadbaskets'' 0.9))"
    using assms(2) by (simp add: paintOf_def getLayer_def synced_point [OF l] paint_pointUpd)
  show "paintOf (syncMap a obj sel m) ''breadbaskets-layer'' ''circle-stroke-opacity'' =
           Some (SNum (opac obj ''breadbaskets'' 0.9 * 0.5))"
    using assms(2) by (simp add: paintOf_def getLayer_def synced_point [OF l] paint_pointUpd)
qed

lemma opacity_raster:
  assumes "layersRegistered m" "k \<in> set ALL_RASTER_KEYS" "t \<in> {''strict'', ''liberal''}"
    and "k \<in> set a" "t = threshOf sel"
  shows "paintOf (syncMap a obj sel m) (rasterLayerId k t) ''raster-opacity'' =
           Some (SNum (opac obj k (rasterDefault k)))"
proof -
  from registered_raster [OF assms(1-3)] obtain l where l: "mlayers m (rasterLayerId k t) = Some l" ..
  have "paintOf (syncMap a obj sel m) (rasterLayerId k t) ''raster-opacity'' =
          paint (rasterUpd (k \<in> set a \<and> t = threshOf sel) (opac obj k (rasterDefault k)) l)
            ''raster-opacity''"
    by (simp add: paintOf_def getLayer_def synced_raster [OF assms(2,3) l])
  also have "\<dots> = Some (SNum (opac obj k (rasterDefault k)))"
    using assms(4,5) by (simp only: paint_rasterUpd simp_thms if_True)
  finally show ?thesis .
qed

lemma registered_syncMap: "layersRegistered m \<Longrightarrow> layersRegistered (syncMap a obj sel m)"
  unfolding layersRegistered_def list_all_iff getLayer_def
  by (auto simp: syncMap_plan mlayers_applyPlan [OF distinct_syncPlan] split: option.split)

lemma getLayer_addLayer:
  "(\<exists>y. getLayer (addLayer m lid l) lid' = Some y) \<longleftrightarrow>
     lid' = lid \<or> (\<exists>y. getLayer m lid' = Some y)"
  by (auto simp: getLayer_def addLayer_def split: option.splits)

lemma registered_addAllLayers: "layersRegistered (addAllLayers m)"
  by (simp add: layersRegistered_def appLayerIds_eq addAllLayers_def burden_keys getLayer_addLayer)

lemma syncLayers_ready:
  "mapRef c = Some m \<Longrightarrow> readyRef c \<Longrightarrow>
   syncLayers a obj sel c = c\<lparr>mapRef := Some (syncMap a obj sel m)\<rparr>"
  by (simp add: syncLayers_syncMap)

lemma getLayer_addLayer_eq:
  "getLayer (addLayer m lid l) lid' =
     (if lid' = lid then (case getLayer m lid of None \<Rightarrow> Some l | Some l0 \<Rightarrow> Some l0)
      else getLayer m lid')"
  by (simp add: getLayer_def addLayer_def split: option.splits)

lemma fresh_addAllLayers:
  assumes "list_all (\<lambda>lid. getLayer m0 lid = None) appLayerIds"
  shows "filter (isVisible (addAllLayers m0)) appLayerIds =
           [''breadbaskets-layer'', ''raster-cooccurrence-strict'']"
    and "filter (isHidden (addAllLayers m0)) appLayerIds =
           [''raster-cooccurrence-liberal'',
            ''raster-env_footprint-strict'', ''raster-env_footprint-liberal'',
            ''raster-weather_extremes-strict'', ''raster-weather_extremes-liberal'',
            ''raster-income_poverty-strict'', ''raster-income_poverty-liberal'',
            ''raster-malnutrition-strict'', ''raster-malnutrition-liberal'']"
proof -
  from assms have f:
    "getLayer m0 ''breadbaskets-layer'' = None"
    "getLayer m0 ''raster-cooccurrence-strict'' = None"
    "getLayer m0 ''raster-cooccurrence-liberal'' = None"
    "getLayer m0 ''raster-env_footprint-strict'' = None"
    "getLayer m0 ''raster-env_footprint-liberal'' = None"
    "getLayer m0 ''raster-weather_extremes-strict'' = None"
    "getLayer m0 ''raster-weather_extremes-liberal'' = None"
    "getLayer m0 ''raster-income_poverty-strict'' = None"
    "getLayer m0 ''raster-income_poverty-liberal'' = None"
    "getLayer m0 ''raster-malnutrition-strict'' = None"
    "getLayer m0 ''raster-malnutrition-liberal'' = None"
    by (simp_all add: appLayerIds_eq)
  show "filter (isVisible (addAllLayers m0)) appLayerIds =
           [''breadbaskets-layer'', ''raster-cooccurrence-strict'']"
    by (simp add: appLayerIds_eq isVisible_def addAllLayers_def burden_keys getLayer_addLayer_eq f)
  show "filter (isHidden (addAllLayers m0)) appLayerIds =
           [''raster-cooccurrence-liberal'',
            ''raster-env_footprint-strict'', ''raster-env_footprint-liberal'',
            ''raster-weather_extremes-strict'', ''raster-weather_extremes-liberal'',
            ''raster-income_poverty-strict'', ''raster-income_poverty-liberal'',
            ''raster-malnutrition-strict'', ''raster-malnutrition-liberal'']"
    by (simp add: appLayerIds_eq isHidden_def addAllLayers_def burden_keys getLayer_addLayer_eq f)
qed

lemma default_sync_visible:
  assumes "layersRegistered m"
  shows "filter (isVisible (syncMap [''breadbaskets'', ''cooccurrence''] obj ''strict'' m)) appLayerIds =
           [''breadbaskets-layer'', ''raster-cooccurrence-strict'']"
    and "filter (isHidden (syncMap [''breadbaskets'', ''cooccurrence''] obj ''strict'' m)) appLayerIds =
           [''raster-cooccurrence-liberal'',
            ''raster-env_footprint-strict'', ''raster-env_footprint-liberal'',
            ''raster-weather_extremes-strict'', ''raster-weather_extremes-liberal'',
            ''raster-income_poverty-strict'', ''raster-income_poverty-liberal'',
            ''raster-malnutrition-strict'', ''raster-malnutrition-liberal'']"
proof -
  let ?m' = "syncMap [''breadbaskets'', ''cooccurrence''] obj ''strict'' m"
  have "filter (isVisible ?m') appLayerIds =
          [''breadbaskets-layer'', rasterLayerId ''cooccurrence'' ''strict'']"
    by (simp add: appLayerIds_def raster_keys visible_point [OF assms]
          visible_raster [OF assms] threshOf_def)
  then show "filter (isVisible ?m') appLayerIds =
           [''breadbaskets-layer'', ''raster-cooccurrence-strict'']"
    by (simp add: rasterLayerId_def)
  have "filter (isHidden ?m') appLayerIds =
          [rasterLayerId ''cooccurrence'' ''liberal'',
           rasterLayerId ''env_footprint'' ''strict'', rasterLayerId ''env_footprint'' ''liberal'',
           rasterLayerId ''weather_extremes'' ''strict'', rasterLayerId ''weather_extremes'' ''liberal'',
           rasterLayerId ''income_poverty'' ''strict'', rasterLayerId ''income_poverty'' ''liberal'',
           rasterLayerId ''malnutrition'' ''strict'', rasterLayerId ''malnutrition'' ''liberal'']"
    by (simp add: appLayerIds_def raster_keys hidden_point [OF assms]
          hidden_raster [OF assms] threshOf_def)
  then show "filter (isHidden ?m') appLayerIds =
           [''raster-cooccurrence-liberal'',
            ''raster-env_footprint-strict'', ''raster-env_footprint-liberal'',
            ''raster-weather_extremes-strict'', ''raster-weather_extremes-liberal'',
            ''raster-income_poverty-strict'', ''raster-income_poverty-liberal'',
            ''raster-malnutrition-strict'', ''raster-malnutrition-liberal'']"
    by (simp add: rasterLayerId_def)
qed

text \<open>
  C1.  On a loaded map that has the component's eleven layers, and for a selected
  threshold that is a non-empty string (both variants are; for the empty string the code
  substitutes \<open>strict\<close>), one run of \<open>syncLayers\<close> leaves the point layer visible
  exactly when \<open>breadbaskets\<close> is active, and each of the ten rasters (co-occurrence
  and the four burdens, each in a strict and a liberal variant) visible exactly when its
  key is active and its variant is the selected threshold.  So for no key are both of
  its variants visible.
\<close>

theorem sync_visible_layers:
  assumes "mapRef c = Some m" and "readyRef c" and "layersRegistered m" and "sel \<noteq> []"
  shows "\<exists>m'. mapRef (syncLayers a obj sel c) = Some m' \<and>
           (isVisible m' ''breadbaskets-layer'' \<longleftrightarrow> ''breadbaskets'' \<in> set a) \<and>
           (\<forall>k \<in> set ALL_RASTER_KEYS. \<forall>t \<in> {''strict'', ''liberal''}.
               isVisible m' (rasterLayerId k t) \<longleftrightarrow> k \<in> set a \<and> t = sel) \<and>
           (\<forall>k \<in> set ALL_RASTER_KEYS.
               \<not> (isVisible m' (rasterLayerId k ''strict'') \<and>
                  isVisible m' (rasterLayerId k ''liberal''))) \<and>
           concat (map (\<lambda>k. map (rasterLayerId k) [''strict'', ''liberal'']) ALL_RASTER_KEYS) =
             [''raster-cooccurrence-strict'', ''raster-cooccurrence-liberal'',
              ''raster-env_footprint-strict'', ''raster-env_footprint-liberal'',
              ''raster-weather_extremes-strict'', ''raster-weather_extremes-liberal'',
              ''raster-income_poverty-strict'', ''raster-income_poverty-liberal'',
              ''raster-malnutrition-strict'', ''raster-malnutrition-liberal'']"
proof -
  let ?m' = "syncMap a obj sel m"
  have th: "threshOf sel = sel"
    using assms(4) by (simp add: threshOf_def)
  have r: "mapRef (syncLayers a obj sel c) = Some ?m'"
    using assms(1,2) by (simp add: syncLayers_ready)
  have p: "isVisible ?m' ''breadbaskets-layer'' \<longleftrightarrow> ''breadbaskets'' \<in> set a"
    by (rule visible_point [OF assms(3)])
  have v: "isVisible ?m' (rasterLayerId k t) \<longleftrightarrow> k \<in> set a \<and> t = sel"
    if "k \<in> set ALL_RASTER_KEYS" "t \<in> {''strict'', ''liberal''}" for k t
    using visible_raster [OF assms(3) that, of a obj sel] by (simp add: th)
  have one: "\<not> (isVisible ?m' (rasterLayerId k ''strict'') \<and>
                 isVisible ?m' (rasterLayerId k ''liberal''))"
    if "k \<in> set ALL_RASTER_KEYS" for k
    using v [OF that, of "''strict''"] v [OF that, of "''liberal''"] by auto
  have ids: "concat (map (\<lambda>k. map (rasterLayerId k) [''strict'', ''liberal'']) ALL_RASTER_KEYS) =
             [''raster-cooccurrence-strict'', ''raster-cooccurrence-liberal'',
              ''raster-env_footprint-strict'', ''raster-env_footprint-liberal'',
              ''raster-weather_extremes-strict'', ''raster-weather_extremes-liberal'',
              ''raster-income_poverty-strict'', ''raster-income_poverty-liberal'',
              ''raster-malnutrition-strict'', ''raster-malnutrition-liberal'']"
    by (simp add: raster_keys rasterLayerId_def)
  from r p v one ids show ?thesis by blast
qed

theorem sync_visible_layers_witness:
  "mapRef (onLoad emptyMap) = Some (addAllLayers emptyMap) \<and> readyRef (onLoad emptyMap) \<and>
   layersRegistered (addAllLayers emptyMap) \<and> ''liberal'' \<noteq> [] \<and>
   (\<exists>m'. mapRef (syncLayers [''breadbaskets'', ''malnutrition''] DEFAULT_OPACITY ''liberal''
                  (onLoad emptyMap)) = Some m' \<and>
         isVisible m' ''breadbaskets-layer'' \<and>
         isVisible m' (rasterLayerId ''malnutrition'' ''liberal'') \<and>
         \<not> isVisible m' (rasterLayerId ''malnutrition'' ''strict'') \<and>
         \<not> isVisible m' (rasterLayerId ''cooccurrence'' ''liberal''))"
proof -
  have h1: "mapRef (onLoad emptyMap) = Some (addAllLayers emptyMap)" by (simp add: onLoad_def)
  have h2: "readyRef (onLoad emptyMap)" by (simp add: onLoad_def)
  have h3: "layersRegistered (addAllLayers emptyMap)" by code_simp
  have h4: "''liberal'' \<noteq> []" by simp
  have k: "''malnutrition'' \<in> set ALL_RASTER_KEYS" "''cooccurrence'' \<in> set ALL_RASTER_KEYS"
    by code_simp+
  from sync_visible_layers [OF h1 h2 h3 h4, of "[''breadbaskets'', ''malnutrition'']" DEFAULT_OPACITY]
  obtain m' where
    m': "mapRef (syncLayers [''breadbaskets'', ''malnutrition''] DEFAULT_OPACITY ''liberal''
           (onLoad emptyMap)) = Some m'"
    and p: "isVisible m' ''breadbaskets-layer'' \<longleftrightarrow> ''breadbaskets'' \<in> set [''breadbaskets'', ''malnutrition'']"
    and r: "\<forall>k \<in> set ALL_RASTER_KEYS. \<forall>t \<in> {''strict'', ''liberal''}.
               isVisible m' (rasterLayerId k t) \<longleftrightarrow>
                 k \<in> set [''breadbaskets'', ''malnutrition''] \<and> t = ''liberal''"
    by blast
  from p have "isVisible m' ''breadbaskets-layer''" by simp
  moreover from r k(1) have "isVisible m' (rasterLayerId ''malnutrition'' ''liberal'')" by simp
  moreover from r k(1) have "\<not> isVisible m' (rasterLayerId ''malnutrition'' ''strict'')" by simp
  moreover from r k(2) have "\<not> isVisible m' (rasterLayerId ''cooccurrence'' ''liberal'')" by simp
  ultimately show ?thesis using h1 h2 h3 m' by blast
qed

text \<open>
  C4.  \<open>syncLayers\<close> is idempotent: from any state of the component (map absent or
  present, ready or not, any layers with any properties), running it a second time with
  the same active list, opacity object and threshold gives the state of the first run,
  every layout and paint property included.
\<close>

theorem sync_idempotent:
  "syncLayers a obj sel (syncLayers a obj sel c) = syncLayers a obj sel c"
  by (cases "mapRef c") (simp_all add: syncLayers_syncMap syncMap_idem)

text \<open>
  C5.  The default state has the active list \<open>breadbaskets, cooccurrence\<close>, threshold
  \<open>strict\<close> and view mode \<open>cooccurrence\<close>.  After the load handler and the
  synchronisation with that state, of the component's eleven layers exactly the point
  layer and the strict co-occurrence raster are visible, and the liberal co-occurrence
  raster and the eight burden rasters are hidden.  The layers are already registered
  that way by \<open>addAllLayers\<close> when the loaded style has none of the eleven ids.
\<close>

theorem default_state_visible:
  "activeLayers initial_state = [''breadbaskets'', ''cooccurrence''] \<and>
   selectedThreshold initial_state = ''strict'' \<and>
   viewMode initial_state = ''cooccurrence'' \<and>
   (\<exists>m'. mapRef (render initial_state (onLoad m0)) = Some m' \<and>
      filter (isVisible m') appLayerIds = [''breadbaskets-layer'', ''raster-cooccurrence-strict''] \<and>
      filter (isHidden m') appLayerIds =
        [''raster-cooccurrence-liberal'',
         ''raster-env_footprint-strict'', ''raster-env_footprint-liberal'',
         ''raster-weather_extremes-strict'', ''raster-weather_extremes-liberal'',
         ''raster-income_poverty-strict'', ''raster-income_poverty-liberal'',
         ''raster-malnutrition-strict'', ''raster-malnutrition-liberal'']) \<and>
   (list_all (\<lambda>lid. getLayer m0 lid = None) appLayerIds \<longrightarrow>
      filter (isVisible (addAllLayers m0)) appLayerIds =
        [''breadbaskets-layer'', ''raster-cooccurrence-strict''] \<and>
      filter (isHidden (addAllLayers m0)) appLayerIds =
        [''raster-cooccurrence-liberal'',
         ''raster-env_footprint-strict'', ''raster-env_footprint-liberal'',
         ''raster-weather_extremes-strict'', ''raster-weather_extremes-liberal'',
         ''raster-income_poverty-strict'', ''raster-income_poverty-liberal'',
         ''raster-malnutrition-strict'', ''raster-malnutrition-liberal''])"
proof -
  have s: "activeLayers initial_state = [''breadbaskets'', ''cooccurrence'']"
    "selectedThreshold initial_state = ''strict''" "viewMode initial_state = ''cooccurrence''"
    by (simp_all add: initial_state_def DEFAULT_ACTIVE_LAYERS_def)
  have r: "mapRef (render initial_state (onLoad m0)) =
             Some (syncMap [''breadbaskets'', ''cooccurrence''] (layerOpacity initial_state) ''strict''
                     (addAllLayers m0))"
    by (simp add: render_def s syncLayers_syncMap onLoad_def)
  show ?thesis
    using s r default_sync_visible [OF registered_addAllLayers, of "layerOpacity initial_state" m0]
      fresh_addAllLayers [of m0]
    by simp
qed

theorem default_state_visible_witness:
  "list_all (\<lambda>lid. getLayer emptyMap lid = None) appLayerIds \<and>
   filter (isVisible (addAllLayers emptyMap)) appLayerIds =
     [''breadbaskets-layer'', ''raster-cooccurrence-strict''] \<and>
   (\<exists>m'. mapRef (render initial_state (onLoad emptyMap)) = Some m' \<and>
      filter (isVisible m') appLayerIds = [''breadbaskets-layer'', ''raster-cooccurrence-strict''])"
proof -
  have h: "list_all (\<lambda>lid. getLayer emptyMap lid = None) appLayerIds" by code_simp
  with default_state_visible [of emptyMap] show ?thesis by blast
qed

text \<open>
  C6.  With \<open>cooccurrence\<close> active and threshold \<open>strict\<close>, the strict
  co-occurrence raster is shown and the liberal one hidden; after the threshold change to
  \<open>liberal\<close> and the next synchronisation the liberal raster is shown and the strict
  one hidden.  The threshold change leaves the active list as it was.
\<close>

theorem threshold_swap:
  assumes "''cooccurrence'' \<in> set (activeLayers s)" and "selectedThreshold s = ''strict''"
    and "mapRef c = Some m" and "readyRef c" and "layersRegistered m"
  shows "activeLayers (handleThresholdChange ''liberal'' s) = activeLayers s \<and>
         selectedThreshold (handleThresholdChange ''liberal'' s) = ''liberal'' \<and>
         (\<exists>m1. mapRef (render s c) = Some m1 \<and>
            isVisible m1 ''raster-cooccurrence-strict'' \<and>
            isHidden m1 ''raster-cooccurrence-liberal'' \<and>
            \<not> isVisible m1 ''raster-cooccurrence-liberal'') \<and>
         (\<exists>m2. mapRef (render (handleThresholdChange ''liberal'' s) (render s c)) = Some m2 \<and>
            isVisible m2 ''raster-cooccurrence-liberal'' \<and>
            isHidden m2 ''raster-cooccurrence-strict'' \<and>
            \<not> isVisible m2 ''raster-cooccurrence-strict'')"
proof -
  let ?a = "activeLayers s" and ?obj = "layerOpacity s"
  let ?m1 = "syncMap ?a ?obj ''strict'' m"
  let ?m2 = "syncMap ?a ?obj ''liberal'' ?m1"
  have k: "''cooccurrence'' \<in> set ALL_RASTER_KEYS" by (simp add: raster_keys)
  have reg1: "layersRegistered ?m1" by (rule registered_syncMap [OF assms(5)])
  have r1: "render s c = c\<lparr>mapRef := Some ?m1\<rparr>"
    using assms(2-4) by (simp add: render_def syncLayers_ready)
  have r2: "render (handleThresholdChange ''liberal'' s) (render s c) = c\<lparr>mapRef := Some ?m2\<rparr>"
    unfolding r1 using assms(4)
    by (simp add: render_def handleThresholdChange_def syncLayers_syncMap)
  have v1: "isVisible ?m1 (rasterLayerId ''cooccurrence'' ''strict'')"
           "isHidden ?m1 (rasterLayerId ''cooccurrence'' ''liberal'')"
           "\<not> isVisible ?m1 (rasterLayerId ''cooccurrence'' ''liberal'')"
    using assms(1)
    by (simp_all add: visible_raster [OF assms(5) k] hidden_raster [OF assms(5) k] threshOf_def)
  have v2: "isVisible ?m2 (rasterLayerId ''cooccurrence'' ''liberal'')"
           "isHidden ?m2 (rasterLayerId ''cooccurrence'' ''strict'')"
           "\<not> isVisible ?m2 (rasterLayerId ''cooccurrence'' ''strict'')"
    using assms(1)
    by (simp_all add: visible_raster [OF reg1 k] hidden_raster [OF reg1 k] threshOf_def)
  have ids: "rasterLayerId ''cooccurrence'' ''strict'' = ''raster-cooccurrence-strict''"
            "rasterLayerId ''cooccurrence'' ''liberal'' = ''raster-cooccurrence-liberal''"
    by (simp_all add: rasterLayerId_def)
  have a: "activeLayers (handleThresholdChange ''liberal'' s) = activeLayers s"
          "selectedThreshold (handleThresholdChange ''liberal'' s) = ''liberal''"
    by (simp_all add: handleThresholdChange_def)
  have m1: "mapRef (render s c) = Some ?m1" by (simp add: r1)
  have m2: "mapRef (render (handleThresholdChange ''liberal'' s) (render s c)) = Some ?m2"
    by (simp add: r2)
  from a m1 m2 v1 [unfolded ids] v2 [unfolded ids] show ?thesis by blast
qed

theorem threshold_swap_witness:
  "''cooccurrence'' \<in> set (activeLayers initial_state) \<and>
   selectedThreshold initial_state = ''strict'' \<and>
   mapRef (onLoad emptyMap) = Some (addAllLayers emptyMap) \<and> readyRef (onLoad emptyMap) \<and>
   layersRegistered (addAllLayers emptyMap) \<and>
   activeLayers (handleThresholdChange ''liberal'' initial_state) = activeLayers initial_state \<and>
   (\<exists>m2. mapRef (render (handleThresholdChange ''liberal'' initial_state)
                  (render initial_state (onLoad emptyMap))) = Some m2 \<and>
      isVisible m2 ''raster-cooccurrence-liberal'' \<and>
      isHidden m2 ''raster-cooccurrence-strict'')"
proof -
  have h1: "''cooccurrence'' \<in> set (activeLayers initial_state)" by code_simp
  have h2: "selectedThreshold initial_state = ''strict''" by code_simp
  have h3: "mapRef (onLoad emptyMap) = Some (addAllLayers emptyMap)" by (simp add: onLoad_def)
  have h4: "readyRef (onLoad emptyMap)" by (simp add: onLoad_def)
  have h5: "layersRegistered (addAllLayers emptyMap)" by code_simp
  from threshold_swap [OF h1 h2 h3 h4 h5] h1 h2 h3 h4 h5 show ?thesis by blast
qed

lemma rasterUpd_inactive:
  "k \<notin> set a \<Longrightarrow>
   rasterUpd (k' \<in> set a \<and> P) (opac (obj(k \<mapsto> v)) k' d) =
   rasterUpd (k' \<in> set a \<and> P) (opac obj k' d)"
  by (rule ext, cases "k' = k") (simp_all add: rasterUpd_def opac_def)

lemma pointUpd_inactive:
  "k \<notin> set a \<Longrightarrow>
   pointUpd (k' \<in> set a) (opac (obj(k \<mapsto> v)) k' d) =
   pointUpd (k' \<in> set a) (opac obj k' d)"
  by (rule ext, cases "k' = k") (simp_all add: pointUpd_def opac_def)

lemma syncPlan_inactive:
  "k \<notin> set a \<Longrightarrow> syncPlan a (obj(k \<mapsto> v)) sel = syncPlan a obj sel"
  by (simp add: syncPlan_def burden_keys rasterUpd_inactive pointUpd_inactive)

lemma syncLayers_inactive:
  "k \<notin> set a \<Longrightarrow> syncLayers a (obj(k \<mapsto> v)) sel c = syncLayers a obj sel c"
  by (cases "mapRef c") (simp_all add: syncLayers_syncMap syncMap_plan syncPlan_inactive)

lemma opac_upd: "opac (obj(k \<mapsto> v)) k d = v"
  by (simp add: opac_def)

text \<open>
  C7.  For a key that is not in the active list, the opacity change leaves the active
  list alone, and the synchronisation that follows computes the same component state as
  with the old opacity object; run after the synchronisation of the old state it changes
  nothing, so no layer's opacity (nor any other property) moves.  Once the key is toggled
  active, the next synchronisation on a loaded map shows the key's layer (for a raster
  key, the variant of the selected threshold) with the new value as its opacity.
\<close>

theorem inactive_opacity_no_effect:
  assumes "k \<notin> set (activeLayers s)"
  shows "activeLayers (handleOpacityChange k v s) = activeLayers s \<and>
         render (handleOpacityChange k v s) c = render s c \<and>
         render (handleOpacityChange k v s) (render s c) = render s c \<and>
         (mapRef c = Some m \<and> readyRef c \<and> layersRegistered m \<longrightarrow>
            (\<exists>m'. mapRef (render (handleToggle k (handleOpacityChange k v s)) (render s c)) = Some m' \<and>
               (k = ''breadbaskets'' \<longrightarrow>
                  isVisible m' ''breadbaskets-layer'' \<and>
                  paintOf m' ''breadbaskets-layer'' ''circle-opacity'' = Some (SNum v)) \<and>
               (k \<in> set ALL_RASTER_KEYS \<and> selectedThreshold s \<in> {''strict'', ''liberal''} \<longrightarrow>
                  isVisible m' (rasterLayerId k (selectedThreshold s)) \<and>
                  paintOf m' (rasterLayerId k (selectedThreshold s)) ''raster-opacity'' =
                    Some (SNum v))))"
proof -
  let ?a = "activeLayers s" and ?obj = "layerOpacity s" and ?sel = "selectedThreshold s"
  let ?s1 = "handleOpacityChange k v s"
  let ?s2 = "handleToggle k ?s1"
  have a1: "activeLayers ?s1 = ?a" by (simp add: handleOpacityChange_def)
  have same: "render ?s1 c' = render s c'" for c'
    using assms by (simp add: render_def handleOpacityChange_def syncLayers_inactive)
  have idem: "render s (render s c) = render s c"
    unfolding render_def by (simp add: syncLayers_syncMap syncMap_idem split: option.split)
  have again: "render ?s1 (render s c) = render s c"
    by (simp only: same idem)
  have eff: "\<exists>m'. mapRef (render ?s2 (render s c)) = Some m' \<and>
               (k = ''breadbaskets'' \<longrightarrow>
                  isVisible m' ''breadbaskets-layer'' \<and>
                  paintOf m' ''breadbaskets-layer'' ''circle-opacity'' = Some (SNum v)) \<and>
               (k \<in> set ALL_RASTER_KEYS \<and> ?sel \<in> {''strict'', ''liberal''} \<longrightarrow>
                  isVisible m' (rasterLayerId k ?sel) \<and>
                  paintOf m' (rasterLayerId k ?sel) ''raster-opacity'' = Some (SNum v))"
    if c: "mapRef c = Some m" "readyRef c" and reg: "layersRegistered m"
  proof -
    let ?m1 = "syncMap ?a ?obj ?sel m"
    let ?m2 = "syncMap (?a @ [k]) (?obj(k \<mapsto> v)) ?sel ?m1"
    have reg1: "layersRegistered ?m1" by (rule registered_syncMap [OF reg])
    have s2: "activeLayers ?s2 = ?a @ [k]" "layerOpacity ?s2 = ?obj(k \<mapsto> v)"
      "selectedThreshold ?s2 = ?sel"
      using assms by (simp_all add: handleToggle_def handleOpacityChange_def)
    have r1: "render s c = c\<lparr>mapRef := Some ?m1\<rparr>"
      using c by (simp add: render_def syncLayers_ready)
    have r2: "mapRef (render ?s2 (render s c)) = Some ?m2"
      unfolding r1 using c(2) by (simp add: render_def s2 syncLayers_syncMap)
    have p: "isVisible ?m2 ''breadbaskets-layer'' \<and>
             paintOf ?m2 ''breadbaskets-layer'' ''circle-opacity'' = Some (SNum v)"
      if "k = ''breadbaskets''"
      using that opacity_point(1) [OF reg1, where a = "?a @ [k]" and obj = "?obj(k \<mapsto> v)" and sel = ?sel]
      by (simp add: visible_point [OF reg1] opac_upd)
    have q: "isVisible ?m2 (rasterLayerId k ?sel) \<and>
             paintOf ?m2 (rasterLayerId k ?sel) ''raster-opacity'' = Some (SNum v)"
      if k: "k \<in> set ALL_RASTER_KEYS" and t: "?sel \<in> {''strict'', ''liberal''}"
    proof -
      from t have th: "threshOf ?sel = ?sel" by (auto simp: threshOf_def)
      have "k \<in> set (?a @ [k])" by simp
      from opacity_raster [OF reg1 k t this, where obj = "?obj(k \<mapsto> v)" and sel = ?sel] th
      have "paintOf ?m2 (rasterLayerId k ?sel) ''raster-opacity'' = Some (SNum v)"
        by (simp add: opac_upd)
      moreover have "isVisible ?m2 (rasterLayerId k ?sel)"
        by (simp add: visible_raster [OF reg1 k t] th)
      ultimately show ?thesis by simp
    qed
    from r2 p q show ?thesis by blast
  qed
  from a1 same [of c] again eff show ?thesis by blast
qed

theorem inactive_opacity_no_effect_witness:
  "''malnutrition'' \<notin> set (activeLayers initial_state) \<and>
   mapRef (onLoad emptyMap) = Some (addAllLayers emptyMap) \<and> readyRef (onLoad emptyMap) \<and>
   layersRegistered (addAllLayers emptyMap) \<and>
   ''malnutrition'' \<in> set ALL_RASTER_KEYS \<and>
   selectedThreshold initial_state \<in> {''strict'', ''liberal''} \<and>
   render (handleOpacityChange ''malnutrition'' 0.25 initial_state)
     (render initial_state (onLoad emptyMap)) = render initial_state (onLoad emptyMap) \<and>
   (\<exists>m'. mapRef (render (handleToggle ''malnutrition''
                          (handleOpacityChange ''malnutrition'' 0.25 initial_state))
                  (render initial_state (onLoad emptyMap))) = Some m' \<and>
      paintOf m' (rasterLayerId ''malnutrition'' (selectedThreshold initial_state)) ''raster-opacity'' =
        Some (SNum 0.25))"
proof -
  have h0: "''malnutrition'' \<notin> set (activeLayers initial_state)" by code_simp
  have h1: "mapRef (onLoad emptyMap) = Some (addAllLayers emptyMap)" by (simp add: onLoad_def)
  have h2: "readyRef (onLoad emptyMap)" by (simp add: onLoad_def)
  have h3: "layersRegistered (addAllLayers emptyMap)" by code_simp
  have h4: "''malnutrition'' \<in> set ALL_RASTER_KEYS" by code_simp
  have h5: "selectedThreshold initial_state \<in> {''strict'', ''liberal''}"
    by (simp add: initial_state_def)
  from inactive_opacity_no_effect [OF h0, of "0.25" "onLoad emptyMap" "addAllLayers emptyMap"]
    h0 h1 h2 h3 h4 h5
  show ?thesis by blast
qed

text \<open>
  C10.  On a loaded map and for a threshold variant, an active key that the opacity
  object lacks gets a fixed opacity and its layer is shown: \<open>0.9\<close> for the point
  layer (and half of it for the stroke), \<open>0.75\<close> for the co-occurrence raster,
  \<open>0.7\<close> for each burden raster.  The root component's initial opacity object has
  \<open>0.85\<close> for \<open>breadbaskets\<close>, not \<open>0.9\<close>.
\<close>

theorem default_opacity_fallback:
  assumes "mapRef c = Some m" and "readyRef c" and "layersRegistered m"
    and "sel \<in> {''strict'', ''liberal''}"
  shows "\<exists>m'. mapRef (syncLayers a obj sel c) = Some m' \<and>
           (''breadbaskets'' \<in> set a \<and> obj ''breadbaskets'' = None \<longrightarrow>
              isVisible m' ''breadbaskets-layer'' \<and>
              paintOf m' ''breadbaskets-layer'' ''circle-opacity'' = Some (SNum 0.9) \<and>
              paintOf m' ''breadbaskets-layer'' ''circle-stroke-opacity'' = Some (SNum 0.45)) \<and>
           (''cooccurrence'' \<in> set a \<and> obj ''cooccurrence'' = None \<longrightarrow>
              isVisible m' (rasterLayerId ''cooccurrence'' sel) \<and>
              paintOf m' (rasterLayerId ''cooccurrence'' sel) ''raster-opacity'' = Some (SNum 0.75)) \<and>
           (\<forall>k \<in> set (Object_keys BURDEN_LAYERS). k \<in> set a \<and> obj k = None \<longrightarrow>
              isVisible m' (rasterLayerId k sel) \<and>
              paintOf m' (rasterLayerId k sel) ''raster-opacity'' = Some (SNum 0.7)) \<and>
           DEFAULT_OPACITY ''breadbaskets'' = Some 0.85 \<and>
           DEFAULT_OPACITY ''cooccurrence'' = Some 0.75 \<and>
           DEFAULT_OPACITY ''malnutrition'' = Some 0.7"
proof -
  let ?m' = "syncMap a obj sel m"
  from assms(4) have th: "threshOf sel = sel" by (auto simp: threshOf_def)
  have r: "mapRef (syncLayers a obj sel c) = Some ?m'"
    using assms(1,2) by (simp add: syncLayers_ready)
  have p: "isVisible ?m' ''breadbaskets-layer'' \<and>
           paintOf ?m' ''breadbaskets-layer'' ''circle-opacity'' = Some (SNum 0.9) \<and>
           paintOf ?m' ''breadbaskets-layer'' ''circle-stroke-opacity'' = Some (SNum 0.45)"
    if "''breadbaskets'' \<in> set a" "obj ''breadbaskets'' = None"
    using that opacity_point [OF assms(3) that(1), where obj = obj and sel = sel]
    by (simp add: visible_point [OF assms(3)] opac_def)
  have q: "isVisible ?m' (rasterLayerId k sel) \<and>
           paintOf ?m' (rasterLayerId k sel) ''raster-opacity'' = Some (SNum (rasterDefault k))"
    if "k \<in> set ALL_RASTER_KEYS" "k \<in> set a" "obj k = None" for k
    using that opacity_raster [OF assms(3) that(1) assms(4) that(2), where obj = obj and sel = sel] th
    by (simp add: visible_raster [OF assms(3) that(1) assms(4)] opac_def)
  have c: "isVisible ?m' (rasterLayerId ''cooccurrence'' sel) \<and>
           paintOf ?m' (rasterLayerId ''cooccurrence'' sel) ''raster-opacity'' = Some (SNum 0.75)"
    if "''cooccurrence'' \<in> set a" "obj ''cooccurrence'' = None"
    using q [of "''cooccurrence''"] that by (simp add: raster_keys rasterDefault_def)
  have b: "isVisible ?m' (rasterLayerId k sel) \<and>
           paintOf ?m' (rasterLayerId k sel) ''raster-opacity'' = Some (SNum 0.7)"
    if "k \<in> set (Object_keys BURDEN_LAYERS)" "k \<in> set a" "obj k = None" for k
  proof -
    from that(1) have "k \<in> set ALL_RASTER_KEYS" "k \<noteq> ''cooccurrence''"
      by (auto simp: ALL_RASTER_KEYS_def burden_keys)
    with q [of k] that(2,3) show ?thesis by (simp add: rasterDefault_def)
  qed
  have d: "DEFAULT_OPACITY ''breadbaskets'' = Some 0.85"
    "DEFAULT_OPACITY ''cooccurrence'' = Some 0.75"
    "DEFAULT_OPACITY ''malnutrition'' = Some 0.7"
    by (simp_all add: DEFAULT_OPACITY_def burden_keys)
  show ?thesis
    by (intro exI [of _ ?m'] conjI impI ballI) (use r p c b d in auto)
qed

theorem default_opacity_fallback_witness:
  "mapRef (onLoad emptyMap) = Some (addAllLayers emptyMap) \<and> readyRef (onLoad emptyMap) \<and>
   layersRegistered (addAllLayers emptyMap) \<and> ''strict'' \<in> {''strict'', ''liberal''} \<and>
   ''malnutrition'' \<in> set (Object_keys BURDEN_LAYERS) \<and>
   (\<exists>m'. mapRef (syncLayers [''breadbaskets'', ''cooccurrence'', ''malnutrition''] Map.empty ''strict''
                  (onLoad emptyMap)) = Some m' \<and>
      paintOf m' ''breadbaskets-layer'' ''circle-opacity'' = Some (SNum 0.9) \<and>
      paintOf m' (rasterLayerId ''cooccurrence'' ''strict'') ''raster-opacity'' = Some (SNum 0.75) \<and>
      paintOf m' (rasterLayerId ''malnutrition'' ''strict'') ''raster-opacity'' = Some (SNum 0.7))"
proof -
  have h1: "mapRef (onLoad emptyMap) = Some (addAllLayers emptyMap)" by (simp add: onLoad_def)
  have h2: "readyRef (onLoad emptyMap)" by (simp add: onLoad_def)
  have h3: "layersRegistered (addAllLayers emptyMap)" by code_simp
  have h4: "''strict'' \<in> {''strict'', ''liberal''}" by simp
  have h5: "''malnutrition'' \<in> set (Object_keys BURDEN_LAYERS)" by code_simp
  have a: "''breadbaskets'' \<in> set [''breadbaskets'', ''cooccurrence'', ''malnutrition'']"
    "''cooccurrence'' \<in> set [''breadbaskets'', ''cooccurrence'', ''malnutrition'']"
    "''malnutrition'' \<in> set [''breadbaskets'', ''cooccurrence'', ''malnutrition'']"
    by simp_all
  have e: "(Map.empty :: string \<rightharpoonup> real) k = None" for k by simp
  from default_opacity_fallback [OF h1 h2 h3 h4,
      of "[''breadbaskets'', ''cooccurrence'', ''malnutrition'']" Map.empty]
    h1 h2 h3 h5 a e
  show ?thesis by blast
qed

section \<open>Properties of the hover popup\<close>

text \<open>
  Where the table has no property at all for the attribute's text (this includes the
  missing attribute, whose text is \<open>undefined\<close>), the handler does not fail and shows
  the fallback colour \<open>#888\<close> with the attribute's own text as label; a missing
  production value is shown as the number 0 in the locale's format.
\<close>

lemma read_undefined: "readFoodGroup ''undefined'' = NoProperty"
  by (simp add: readFoodGroup_def FOOD_GROUP_COLORS_def Object_prototype_names_def)

lemma hover_fallback_absent:
  assumes "''breadbaskets'' \<in> set stateActive"
    and "features e = Some (f # fs)"
    and "properties f = Some props"
    and "readFoodGroup (ToString B (get props (groupKey BREADBASKET))) = NoProperty"
  shows "\<exists>m' p' h. mouseenter B stateActive e (m, p) = Inr (m', p') \<and>
           onMap p' \<and> html p' = Some h \<and>
           swatch h = ''#888'' \<and>
           title h = ToString B (get props (groupKey BREADBASKET)) \<and>
           (props (valueKey BREADBASKET) = None \<longrightarrow> production h = toLocaleString B (Some 0))"
  using assms by (auto simp: mouseenter_def Let_def get_def)

lemma hover_fallback_missing:
  assumes "''breadbaskets'' \<in> set stateActive"
    and "features e = Some (f # fs)"
    and "properties f = Some props"
    and "props (groupKey BREADBASKET) = None"
  shows "\<exists>m' p' h. mouseenter B stateActive e (m, p) = Inr (m', p') \<and>
           onMap p' \<and> html p' = Some h \<and> swatch h = ''#888'' \<and> title h = ''undefined''"
  using assms by (auto simp: mouseenter_def Let_def get_def read_undefined)

text \<open>
  C9.  The claim asks the fallback label and colour for every hovered feature whose
  food-group attribute is not a key of the colour table.  The handler does not give it
  for every such attribute: \<open>constructor\<close> is not a key of the table, yet the property
  read answers the inherited value, the \<open>||\<close> keeps it, and the popup is shown with the
  text \<open>undefined\<close> both as swatch colour and as label instead of \<open>#888\<close> and the
  attribute's text.  The handler still returns normally.
\<close>

theorem hover_inherited_name_no_fallback:
  "map_of FOOD_GROUP_COLORS ''constructor'' = None \<and>
   mouseenter B [''breadbaskets'', ''cooccurrence'']
       \<lparr>features = Some [\<lparr>properties = Some [''max_food_group'' \<mapsto> Str ''constructor'']\<rparr>],
        lngLat = ll\<rparr> (m, p)
     = Inr (m\<lparr>canvasCursor := ''crosshair''\<rparr>,
            p\<lparr>position := Some ll,
              html := Some \<lparr>swatch = ''undefined'', title = ''undefined'',
                            production = toLocaleString B (Some 0)\<rparr>,
              onMap := True\<rparr>)"
  by (simp add: mouseenter_def Let_def get_def BREADBASKET_def readFoodGroup_def
        FOOD_GROUP_COLORS_def Object_prototype_names_def)

end
